theory Spec2Isabelle
  imports Main "HOL-Library.Word"
begin

section \<open>Python values\<close>

text \<open>
  The module \<^verbatim>\<open>series.py\<close> is Python 2 code that inspects the exact type of the
  values it is given (\<^verbatim>\<open>type(x) in NUM_TYPES\<close>, \<^verbatim>\<open>type(x) is tuple\<close>,
  \<^verbatim>\<open>type(x) is list\<close>, \<^verbatim>\<open>type(x) is Data\<close>), so a value is modelled with
  one constructor per type that the module tells apart. A float carries its 64 bits; the
  module never computes with numbers. \<open>PData\<close> is a reference to a \<^verbatim>\<open>Data\<close> object
  in the store. \<open>POther\<close> stands for an object of any other type (a dict, a set,
  a \<^verbatim>\<open>Series\<close>, an instance of a subclass of tuple, ...).
\<close>

type_synonym addr = nat

datatype pyval =
    PNone
  | PBool bool
  | PInt int
  | PLong int
  | PFloat "64 word"
  | PStr string
  | PUnicode string
  | PTuple "pyval list"
  | PList "pyval list"
  | PData addr
  | POther

datatype pytype =
  TNone | TBool | TInt | TLong | TFloat | TStr | TUnicode | TTuple | TList | TData | TOther

text \<open>\<^verbatim>\<open>type(x)\<close>: the exact type, so \<^verbatim>\<open>type(True)\<close> is bool and not int.\<close>

fun type_of :: "pyval \<Rightarrow> pytype" where
  "type_of PNone = TNone"
| "type_of (PBool b) = TBool"
| "type_of (PInt i) = TInt"
| "type_of (PLong i) = TLong"
| "type_of (PFloat w) = TFloat"
| "type_of (PStr s) = TStr"
| "type_of (PUnicode s) = TUnicode"
| "type_of (PTuple xs) = TTuple"
| "type_of (PList xs) = TList"
| "type_of (PData a) = TData"
| "type_of POther = TOther"

text \<open>\<^verbatim>\<open>NUM_TYPES = (int, float, long)\<close> and \<^verbatim>\<open>STR_TYPES = (str, unicode)\<close>.\<close>

definition NUM_TYPES :: "pytype list" where
  "NUM_TYPES = [TInt, TFloat, TLong]"

definition STR_TYPES :: "pytype list" where
  "STR_TYPES = [TStr, TUnicode]"

text \<open>
  Every exception the module raises is a \<^verbatim>\<open>TypeError\<close>; the constructors tell the
  raise statements apart by their message, under the names the specification gives them.
  The last two are raised by the interpreter itself, for \<^verbatim>\<open>x[:]\<close> and \<^verbatim>\<open>len(x)\<close>
  on a value that supports neither.
\<close>

datatype error =
    InvalidContentArity
  | InvalidContentElementType
  | InvalidContentType
  | InvalidNameType
  | InvalidSeriesType
  | InvalidSeriesMixedShape
  | NotSubscriptable
  | NoLength

text \<open>
  \<^verbatim>\<open>max(map(f, xs))\<close> on a list of booleans. Python raises on the empty list; both call
  sites of the module reach \<^verbatim>\<open>max\<close> with a list that is not empty (a tuple of two or
  three items, a list whose length is not 0).
\<close>

fun max_list :: "bool list \<Rightarrow> bool" where
  "max_list [] = False"
| "max_list (b # bs) = max b (max_list bs)"

text \<open>\<^verbatim>\<open>len(x)\<close> and \<^verbatim>\<open>x[:]\<close> on the values that the module applies them to.\<close>

fun py_len :: "pyval \<Rightarrow> error + nat" where
  "py_len (PTuple xs) = Inr (length xs)"
| "py_len (PList xs) = Inr (length xs)"
| "py_len (PStr s) = Inr (length s)"
| "py_len (PUnicode s) = Inr (length s)"
| "py_len v = Inl NoLength"

fun slice_all :: "pyval \<Rightarrow> error + pyval" where
  "slice_all (PTuple xs) = Inr (PTuple xs)"
| "slice_all (PList xs) = Inr (PList xs)"
| "slice_all (PStr s) = Inr (PStr s)"
| "slice_all (PUnicode s) = Inr (PUnicode s)"
| "slice_all v = Inl NotSubscriptable"

section \<open>Data\<close>

text \<open>
  A \<^verbatim>\<open>Data\<close> object has the attributes \<^verbatim>\<open>_name\<close> and \<^verbatim>\<open>_content\<close>. Objects
  are mutable and passed by reference, so they live in a store: a list of objects, an
  address being an index. Allocation appends to the store.
\<close>

record data =
  data_name :: pyval
  data_content :: pyval

type_synonym heap = "data list"

text \<open>
  The body of the \<^verbatim>\<open>content\<close> setter, on the object. It returns what the setter
  raised, if anything, and the object as the setter leaves it. The lambda that the source
  calls \<^verbatim>\<open>is_num\<close> here is true of the items that are NOT numbers.
\<close>

definition Data_is_num :: "pyval \<Rightarrow> bool" where
  "Data_is_num x = (type_of x \<notin> set NUM_TYPES)"

definition Data_content_setter :: "data \<Rightarrow> pyval \<Rightarrow> (error + unit) \<times> data" where
  "Data_content_setter self content =
    (if content = PNone then (Inr (), self\<lparr>data_content := PNone\<rparr>)
     else if type_of content \<in> set NUM_TYPES then
       (Inr (), self\<lparr>data_content := PTuple [content, PInt 0, PInt 0]\<rparr>)
     else case content of
       PTuple xs \<Rightarrow>
         if length xs \<notin> {2, 3} then (Inl InvalidContentArity, self)
         else if max_list (map Data_is_num xs) then (Inl InvalidContentElementType, self)
         else if length xs = 2 then
           (Inr (), self\<lparr>data_content := PTuple [xs ! 0, xs ! 1, PInt 0]\<rparr>)
         else if length xs = 3 then (Inr (), self\<lparr>data_content := PTuple xs\<rparr>)
         else (Inr (), self)
     | _ \<Rightarrow> (Inl InvalidContentType, self\<lparr>data_content := PInt 0\<rparr>))"

text \<open>The body of the \<^verbatim>\<open>name\<close> setter.\<close>

definition name_ok :: "pyval \<Rightarrow> bool" where
  "name_ok name =
    (type_of name \<in> set STR_TYPES \<and> (case py_len name of Inr n \<Rightarrow> n > 0 | Inl e \<Rightarrow> False))"

definition Data_name_setter :: "data \<Rightarrow> pyval \<Rightarrow> (error + unit) \<times> data" where
  "Data_name_setter self name =
    (if name_ok name then (Inr (), self\<lparr>data_name := name\<rparr>)
     else if name = PNone then (Inr (), self\<lparr>data_name := PNone\<rparr>)
     else (Inl InvalidNameType, self\<lparr>data_name := PNone\<rparr>))"

text \<open>The setters and getters on an object of the store.\<close>

definition Data_set_content :: "heap \<Rightarrow> addr \<Rightarrow> pyval \<Rightarrow> (error + unit) \<times> heap" where
  "Data_set_content h self content =
    (case Data_content_setter (h ! self) content of (r, d) \<Rightarrow> (r, h[self := d]))"

definition Data_set_name :: "heap \<Rightarrow> addr \<Rightarrow> pyval \<Rightarrow> (error + unit) \<times> heap" where
  "Data_set_name h self name =
    (case Data_name_setter (h ! self) name of (r, d) \<Rightarrow> (r, h[self := d]))"

definition Data_get_content :: "heap \<Rightarrow> addr \<Rightarrow> pyval" where
  "Data_get_content h self = data_content (h ! self)"

definition Data_get_name :: "heap \<Rightarrow> addr \<Rightarrow> pyval" where
  "Data_get_name h self = data_name (h ! self)"

text \<open>
  \<^verbatim>\<open>Data(name, content)\<close>: a fresh object, then \<^verbatim>\<open>self.content = content\<close>, then
  \<^verbatim>\<open>self.name = name\<close>. When a setter raises, the constructor raises and the caller
  gets no reference to the new object.
\<close>

definition Data_init :: "heap \<Rightarrow> pyval \<Rightarrow> pyval \<Rightarrow> (error + addr) \<times> heap" where
  "Data_init h name content =
    (let self = length h;
         h0 = h @ [\<lparr>data_name = PNone, data_content = PNone\<rparr>]
     in case Data_set_content h0 self content of
          (Inl e, h1) \<Rightarrow> (Inl e, h1)
        | (Inr u, h1) \<Rightarrow>
            (case Data_set_name h1 self name of
               (Inl e, h2) \<Rightarrow> (Inl e, h2)
             | (Inr u, h2) \<Rightarrow> (Inr self, h2)))"

text \<open>\<^verbatim>\<open>clear\<close>: \<^verbatim>\<open>self.name = None\<close>, then \<^verbatim>\<open>self.content = None\<close>.\<close>

definition Data_clear :: "heap \<Rightarrow> addr \<Rightarrow> (error + unit) \<times> heap" where
  "Data_clear h self =
    (case Data_set_name h self PNone of
       (Inl e, h1) \<Rightarrow> (Inl e, h1)
     | (Inr u, h1) \<Rightarrow> Data_set_content h1 self PNone)"

text \<open>
  \<^verbatim>\<open>copy\<close>: a new \<^verbatim>\<open>Data()\<close>, the name set when \<^verbatim>\<open>self.name is not None\<close>, then
  \<^verbatim>\<open>new_data.content = self.content[:]\<close>.
\<close>

definition Data_copy :: "heap \<Rightarrow> addr \<Rightarrow> (error + addr) \<times> heap" where
  "Data_copy h self =
    (case Data_init h PNone PNone of
       (Inl e, h1) \<Rightarrow> (Inl e, h1)
     | (Inr new_data, h1) \<Rightarrow>
         (case (if Data_get_name h1 self \<noteq> PNone
                then Data_set_name h1 new_data (Data_get_name h1 self)
                else (Inr (), h1)) of
            (Inl e, h2) \<Rightarrow> (Inl e, h2)
          | (Inr u, h2) \<Rightarrow>
              (case slice_all (Data_get_content h2 self) of
                 Inl e \<Rightarrow> (Inl e, h2)
               | Inr c \<Rightarrow>
                   (case Data_set_content h2 new_data c of
                      (Inl e, h3) \<Rightarrow> (Inl e, h3)
                    | (Inr u, h3) \<Rightarrow> (Inr new_data, h3)))))"

text \<open>
  \<^verbatim>\<open>__eq__\<close> compares the names and the contents with \<^verbatim>\<open>==\<close>. On numbers
  the answer of \<^verbatim>\<open>==\<close> is not the equality of the values of this model: \<^verbatim>\<open>1 == 1.0\<close>
  holds, and two floats that are both NaN are equal only when they are one and the same
  object. The method is therefore not given a definition here; where a copy is compared
  with its original, the theorems state that both hold the same name and the same
  content, read through the getters. These are then the same objects in the program, for
  which \<^verbatim>\<open>==\<close> answers true.
\<close>

text \<open>\<^verbatim>\<open>__len__\<close>: \<^verbatim>\<open>len(self.content)\<close>.\<close>

definition Data_len :: "heap \<Rightarrow> addr \<Rightarrow> error + nat" where
  "Data_len h self = py_len (Data_get_content h self)"

section \<open>Series\<close>

text \<open>
  A \<^verbatim>\<open>Series\<close> object has the attributes \<^verbatim>\<open>_name\<close> and \<^verbatim>\<open>_content\<close>, the
  latter a list of references to \<^verbatim>\<open>Data\<close> objects. No claim depends on two
  references to one series, so a series is passed as a value next to the store.
\<close>

record series =
  series_name :: pyval
  series_content :: "addr list"

definition Series_is_num :: "pyval \<Rightarrow> bool" where
  "Series_is_num x = (type_of x \<in> set NUM_TYPES)"

definition Series_is_tuple :: "pyval \<Rightarrow> bool" where
  "Series_is_tuple x = (type_of x = TTuple)"

text \<open>
  The loop of the \<^verbatim>\<open>content\<close> setter: each item is appended to \<^verbatim>\<open>self._content\<close>
  as \<^verbatim>\<open>item.copy()\<close> when \<^verbatim>\<open>type(item) is Data\<close> and as
  \<^verbatim>\<open>Data(content=item)\<close> otherwise. An exception leaves the loop with what has been
  appended so far.
\<close>

fun Series_append_items :: "heap \<Rightarrow> series \<Rightarrow> pyval list \<Rightarrow> (error + unit) \<times> heap \<times> series" where
  "Series_append_items h self [] = (Inr (), h, self)"
| "Series_append_items h self (item # rest) =
    (case (case item of PData a \<Rightarrow> Data_copy h a | _ \<Rightarrow> Data_init h PNone item) of
       (Inl e, h1) \<Rightarrow> (Inl e, h1, self)
     | (Inr d, h1) \<Rightarrow>
         Series_append_items h1 (self\<lparr>series_content := series_content self @ [d]\<rparr>) rest)"

definition Series_set_content :: "heap \<Rightarrow> series \<Rightarrow> pyval \<Rightarrow> (error + unit) \<times> heap \<times> series" where
  "Series_set_content h self content =
    (if content = PNone then (Inr (), h, self\<lparr>series_content := []\<rparr>)
     else case content of
       PList xs \<Rightarrow>
         if length xs = 0 then (Inr (), h, self\<lparr>series_content := []\<rparr>)
         else if max_list (map Series_is_num xs) \<and> max_list (map Series_is_tuple xs) then
           (Inl InvalidSeriesMixedShape, h, self)
         else Series_append_items h (self\<lparr>series_content := []\<rparr>) xs
     | _ \<Rightarrow> (Inl InvalidSeriesType, h, self\<lparr>series_content := []\<rparr>))"

definition Series_set_name :: "series \<Rightarrow> pyval \<Rightarrow> (error + unit) \<times> series" where
  "Series_set_name self name =
    (if name_ok name then (Inr (), self\<lparr>series_name := name\<rparr>)
     else if name = PNone then (Inr (), self\<lparr>series_name := PNone\<rparr>)
     else (Inl InvalidNameType, self\<lparr>series_name := PNone\<rparr>))"

text \<open>
  \<^verbatim>\<open>Series(name, content)\<close>: \<^verbatim>\<open>self.name = name\<close>, then
  \<^verbatim>\<open>self.content = content\<close>, on a new object.
\<close>

definition Series_init :: "heap \<Rightarrow> pyval \<Rightarrow> pyval \<Rightarrow> (error + series) \<times> heap" where
  "Series_init h name content =
    (case Series_set_name \<lparr>series_name = PNone, series_content = []\<rparr> name of
       (Inl e, s1) \<Rightarrow> (Inl e, h)
     | (Inr u, s1) \<Rightarrow>
         (case Series_set_content h s1 content of
            (Inl e, h1, s2) \<Rightarrow> (Inl e, h1)
          | (Inr u, h1, s2) \<Rightarrow> (Inr s2, h1)))"

definition Series_len :: "series \<Rightarrow> nat" where
  "Series_len self = length (series_content self)"

section \<open>Reachable objects\<close>

text \<open>
  What the two setters can leave in the attributes of a \<^verbatim>\<open>Data\<close> object: a name
  that is \<^verbatim>\<open>None\<close> or a non-empty string, and a content that is \<^verbatim>\<open>None\<close>, a
  tuple of three numbers, or the number 0 that the setter stores before it raises on a
  value of an unknown type. An object built and changed through the class is always in
  such a state (lemmas \<open>content_setter_data_ok\<close>, \<open>name_setter_data_ok\<close>,
  \<open>Data_init_data_ok\<close>, \<open>Data_copy_heap_ok\<close> and \<open>Series_set_content_heap_ok\<close> below).
\<close>

definition content_ok :: "pyval \<Rightarrow> bool" where
  "content_ok c =
    (case c of
       PNone \<Rightarrow> True
     | PInt i \<Rightarrow> i = 0
     | PTuple xs \<Rightarrow> length xs = 3 \<and> list_all (\<lambda>x. type_of x \<in> set NUM_TYPES) xs
     | _ \<Rightarrow> False)"

definition data_ok :: "data \<Rightarrow> bool" where
  "data_ok d = ((data_name d = PNone \<or> name_ok (data_name d)) \<and> content_ok (data_content d))"

text \<open>
  The object that the loop of the series stores for an item, given the store \<open>h0\<close>
  the setter was called in: the fields of the original for a \<^verbatim>\<open>Data\<close> item, what
  \<^verbatim>\<open>Data(content=item)\<close> builds otherwise.
\<close>

definition item_stored :: "heap \<Rightarrow> pyval \<Rightarrow> data \<Rightarrow> bool" where
  "item_stored h0 x d =
    (case x of PData b \<Rightarrow> d = h0 ! b | v \<Rightarrow> Data_init [] PNone v = (Inr 0, [d]))"

section \<open>Properties of the operations\<close>

subsection \<open>The setters, the constructor and copy of Data\<close>

lemma max_list_map: "max_list (map f xs) \<longleftrightarrow> (\<exists>x\<in>set xs. f x)"
  by (induction xs) (auto simp: max_def)

lemma num_not_None: "type_of v \<in> set NUM_TYPES \<Longrightarrow> v \<noteq> PNone"
  by (auto simp: NUM_TYPES_def)

lemma num_types [simp]: "TInt \<in> set NUM_TYPES" "TFloat \<in> set NUM_TYPES" "TLong \<in> set NUM_TYPES"
  by (simp_all add: NUM_TYPES_def)

lemma not_num_types [simp]: "TTuple \<notin> set NUM_TYPES" "TNone \<notin> set NUM_TYPES" "TData \<notin> set NUM_TYPES"
  "TStr \<notin> set NUM_TYPES" "TUnicode \<notin> set NUM_TYPES" "TList \<notin> set NUM_TYPES"
  by (simp_all add: NUM_TYPES_def)

lemma setter_None: "Data_content_setter d PNone = (Inr (), d\<lparr>data_content := PNone\<rparr>)"
  by (simp add: Data_content_setter_def)

lemma setter_num: "type_of v \<in> set NUM_TYPES \<Longrightarrow>
  Data_content_setter d v = (Inr (), d\<lparr>data_content := PTuple [v, PInt 0, PInt 0]\<rparr>)"
  by (auto simp: Data_content_setter_def num_not_None)

lemma setter_tuple: "Data_content_setter d (PTuple xs) =
   (if length xs \<noteq> 2 \<and> length xs \<noteq> 3 then (Inl InvalidContentArity, d)
    else if \<exists>x\<in>set xs. type_of x \<notin> set NUM_TYPES then (Inl InvalidContentElementType, d)
    else if length xs = 2 then (Inr (), d\<lparr>data_content := PTuple [xs ! 0, xs ! 1, PInt 0]\<rparr>)
    else (Inr (), d\<lparr>data_content := PTuple xs\<rparr>))"
  by (simp add: Data_content_setter_def max_list_map Data_is_num_def)

lemma setter_other: "content \<noteq> PNone \<Longrightarrow> type_of content \<notin> set NUM_TYPES \<Longrightarrow> type_of content \<noteq> TTuple \<Longrightarrow>
  Data_content_setter d content = (Inl InvalidContentType, d\<lparr>data_content := PInt 0\<rparr>)"
  by (cases content) (simp_all add: Data_content_setter_def)

lemma setter_cases:
  obtains "content = PNone" | "type_of content \<in> set NUM_TYPES" | xs where "content = PTuple xs"
  | "content \<noteq> PNone" "type_of content \<notin> set NUM_TYPES" "type_of content \<noteq> TTuple"
  by (cases content) auto

lemma setter_name_unchanged: "data_name (snd (Data_content_setter d v)) = data_name d"
  by (cases v rule: setter_cases) (simp_all add: setter_None setter_num setter_tuple setter_other)

lemma name_setter_content_unchanged: "data_content (snd (Data_name_setter d v)) = data_content d"
  by (simp add: Data_name_setter_def)

lemma setter_errors: "fst (Data_content_setter d v) = Inl e \<Longrightarrow>
   e = InvalidContentArity \<or> e = InvalidContentElementType \<or> e = InvalidContentType"
  by (cases v rule: setter_cases) (auto simp: setter_None setter_num setter_tuple setter_other split: if_splits)

lemma name_setter_errors: "fst (Data_name_setter d v) = Inl e \<Longrightarrow> e = InvalidNameType"
  by (auto simp: Data_name_setter_def split: if_splits)

lemma content_setter_ok: "content_ok (data_content d) \<Longrightarrow> content_ok (data_content (snd (Data_content_setter d v)))"
  by (cases v rule: setter_cases)
     (auto simp: setter_None setter_num setter_tuple setter_other content_ok_def list_all_iff)

lemma set_content_nth: 
  "Data_set_content h self v = (fst (Data_content_setter (h ! self) v), h[self := snd (Data_content_setter (h ! self) v)])"
  by (simp add: Data_set_content_def split: prod.splits)

lemma set_name_nth: 
  "Data_set_name h self v = (fst (Data_name_setter (h ! self) v), h[self := snd (Data_name_setter (h ! self) v)])"
  by (simp add: Data_set_name_def split: prod.splits)

lemma Data_init_eq: "Data_init h n c =
  (case Data_content_setter \<lparr>data_name = PNone, data_content = PNone\<rparr> c of
    (Inl e, d) \<Rightarrow> (Inl e, h @ [d])
  | (Inr u, d) \<Rightarrow> (case Data_name_setter d n of
       (Inl e, d') \<Rightarrow> (Inl e, h @ [d'])
     | (Inr u, d') \<Rightarrow> (Inr (length h), h @ [d'])))"
  by (simp add: Data_init_def Data_set_content_def Data_set_name_def Let_def split: prod.splits sum.splits)

lemma Data_init_None: "Data_init h PNone PNone = (Inr (length h), h @ [\<lparr>data_name = PNone, data_content = PNone\<rparr>])"
  by (simp add: Data_init_eq setter_None Data_name_setter_def name_ok_def)

lemma Data_copy_eq: "self < length h \<Longrightarrow> Data_copy h self =
  (case (if data_name (h ! self) \<noteq> PNone
         then Data_name_setter \<lparr>data_name = PNone, data_content = PNone\<rparr> (data_name (h ! self))
         else (Inr (), \<lparr>data_name = PNone, data_content = PNone\<rparr>)) of
     (Inl e, d1) \<Rightarrow> (Inl e, h @ [d1])
   | (Inr u, d1) \<Rightarrow>
      (case slice_all (data_content (h ! self)) of
         Inl e \<Rightarrow> (Inl e, h @ [d1])
       | Inr c \<Rightarrow> (case Data_content_setter d1 c of
            (Inl e, d2) \<Rightarrow> (Inl e, h @ [d2])
          | (Inr u, d2) \<Rightarrow> (Inr (length h), h @ [d2]))))"
  by (simp add: Data_copy_def Data_init_None Data_get_name_def Data_get_content_def nth_append
       set_content_nth set_name_nth case_prod_beta split: sum.splits)

lemma Data_copy_tuple:
  assumes "self < length h" "data_ok (h ! self)" "data_content (h ! self) = PTuple xs"
  shows "Data_copy h self = (Inr (length h), h @ [h ! self])"
proof -
  from assms have xs: "length xs = 3" "\<forall>x\<in>set xs. type_of x \<in> set NUM_TYPES"
    by (simp_all add: data_ok_def content_ok_def list_all_iff)
  from assms have nm: "data_name (h ! self) = PNone \<or> name_ok (data_name (h ! self))"
    by (simp add: data_ok_def)
  show ?thesis using assms(1,3) xs nm
    by (auto simp: Data_copy_eq Data_name_setter_def setter_tuple)
qed

lemma slice_content_ok: "content_ok c \<Longrightarrow> (\<exists>xs. c = PTuple xs) \<or> slice_all c = Inl NotSubscriptable"
  by (cases c) (simp_all add: content_ok_def)

lemma Data_copy_no_tuple:
  assumes "self < length h" "data_ok (h ! self)" "\<forall>xs. data_content (h ! self) \<noteq> PTuple xs"
  shows "Data_copy h self = (Inl NotSubscriptable, h @ [\<lparr>data_name = data_name (h ! self), data_content = PNone\<rparr>])"
proof -
  from assms have sl: "slice_all (data_content (h ! self)) = Inl NotSubscriptable"
    using slice_content_ok[of "data_content (h ! self)"] by (auto simp: data_ok_def)
  from assms have nm: "data_name (h ! self) = PNone \<or> name_ok (data_name (h ! self))"
    by (simp add: data_ok_def)
  show ?thesis using assms(1) sl nm
    by (auto simp: Data_copy_eq Data_name_setter_def)
qed

subsection \<open>The errors that the loop of the series can raise\<close>

lemma slice_errors: "slice_all c = Inl e \<Longrightarrow> e = NotSubscriptable"
  by (cases c) simp_all

lemma Data_init_errors: "fst (Data_init h n c) = Inl e \<Longrightarrow>
   e = InvalidContentArity \<or> e = InvalidContentElementType \<or> e = InvalidContentType \<or> e = InvalidNameType"
  by (auto simp: Data_init_eq case_prod_beta split: sum.splits dest: setter_errors name_setter_errors)

lemma Data_copy_errors: "fst (Data_copy h self) = Inl e \<Longrightarrow>
   e = InvalidContentArity \<or> e = InvalidContentElementType \<or> e = InvalidContentType
   \<or> e = InvalidNameType \<or> e = NotSubscriptable"
  by (auto simp: Data_copy_def Data_init_None set_content_nth set_name_nth case_prod_beta
      split: sum.splits if_splits dest: setter_errors name_setter_errors slice_errors)

lemma Data_init_errors': "Data_init h n c = (Inl e, h') \<Longrightarrow>
   e = InvalidContentArity \<or> e = InvalidContentElementType \<or> e = InvalidContentType \<or> e = InvalidNameType"
  using Data_init_errors[of h n c e] by simp

lemma Data_copy_errors': "Data_copy h self = (Inl e, h') \<Longrightarrow>
   e = InvalidContentArity \<or> e = InvalidContentElementType \<or> e = InvalidContentType
   \<or> e = InvalidNameType \<or> e = NotSubscriptable"
  using Data_copy_errors[of h self e] by simp

lemma append_items_errors: "fst (Series_append_items h s xs) = Inl e \<Longrightarrow>
   e = InvalidContentArity \<or> e = InvalidContentElementType \<or> e = InvalidContentType
   \<or> e = InvalidNameType \<or> e = NotSubscriptable"
proof (induction xs arbitrary: h s)
  case Nil
  then show ?case by simp
next
  case (Cons x xs)
  show ?case
  proof (cases "case x of PData a \<Rightarrow> Data_copy h a | _ \<Rightarrow> Data_init h PNone x")
    case (Pair r h1)
    show ?thesis
    proof (cases r)
      case (Inl e')
      with Pair Cons.prems have "e = e'" by simp
      moreover from Pair Inl have "e' = InvalidContentArity \<or> e' = InvalidContentElementType \<or> e' = InvalidContentType
          \<or> e' = InvalidNameType \<or> e' = NotSubscriptable"
        by (cases x) (auto dest: Data_init_errors' Data_copy_errors')
      ultimately show ?thesis by simp
    next
      case (Inr d)
      with Pair Cons.prems show ?thesis
        by (intro Cons.IH[of h1 "s\<lparr>series_content := series_content s @ [d]\<rparr>"]) simp
    qed
  qed
qed

lemma append_items_name: "series_name (snd (snd (Series_append_items h s xs))) = series_name s"
  by (induction xs arbitrary: h s) (auto split: prod.splits sum.splits)

lemma append_items_append: "Series_append_items h s (xs @ ys) =
   (case Series_append_items h s xs of
      (Inl e, h1, s1) \<Rightarrow> (Inl e, h1, s1)
    | (Inr u, h1, s1) \<Rightarrow> Series_append_items h1 s1 ys)"
  by (induction xs arbitrary: h s) (auto split: prod.splits sum.splits)

subsection \<open>What the loop of the series stores on success\<close>

lemma Data_init_frame: "Data_init h n c =
  (case Data_init [] n c of (r, hn) \<Rightarrow> (map_sum id (\<lambda>a. a + length h) r, h @ hn))"
  by (simp add: Data_init_eq case_prod_beta split: sum.splits)

lemma Data_init_ok_single: "Data_init [] n c = (Inr a, hn) \<Longrightarrow> a = 0 \<and> (\<exists>d. hn = [d])"
  by (auto simp: Data_init_eq case_prod_beta split: sum.splits)

lemma append_items_success:
  assumes "Series_append_items h s xs = (Inr (), h', s')"
      and "\<forall>b. PData b \<in> set xs \<longrightarrow> b < length h0 \<and> data_ok (h0 ! b)"
      and "h = h0 @ ds0"
  shows "\<exists>ds. h' = h @ ds \<and> length ds = length xs \<and>
          series_content s' = series_content s @ [length h ..< length h + length xs] \<and>
          (\<forall>i<length xs. item_stored h0 (xs ! i) (ds ! i))"
  using assms
proof (induction xs arbitrary: h s ds0)
  case Nil
  then show ?case by simp
next
  case (Cons x xs)
  let ?step = "case x of PData a \<Rightarrow> Data_copy h a | _ \<Rightarrow> Data_init h PNone x"
  obtain r h1 where step: "?step = (r, h1)" by (cases ?step)
  with Cons.prems(1) obtain a where r: "r = Inr a"
    by (cases r) auto
  let ?P = "item_stored h0 x"
  have "\<exists>d. a = length h \<and> h1 = h @ [d] \<and> ?P d"
  proof (cases "\<exists>b. x = PData b")
    case True
    then obtain b where x: "x = PData b" by blast
    with Cons.prems have b: "b < length h" "data_ok (h ! b)" "h ! b = h0 ! b"
      by (auto simp: nth_append)
    show ?thesis
    proof (cases "\<exists>ys. data_content (h ! b) = PTuple ys")
      case True
      then obtain ys where "data_content (h ! b) = PTuple ys" by blast
      with b step r x show ?thesis by (simp add: Data_copy_tuple item_stored_def)
    next
      case False
      with b step r x show ?thesis by (simp add: Data_copy_no_tuple)
    qed
  next
    case False
    with step r have i: "Data_init h PNone x = (Inr a, h1)" by (cases x) auto
    obtain r0 hn where i0: "Data_init [] PNone x = (r0, hn)" by (cases "Data_init [] PNone x")
    with i have "r0 = Inr 0 \<and> (\<exists>d. hn = [d]) \<and> a = length h \<and> h1 = h @ hn"
      using Data_init_frame[of h PNone x] Data_init_ok_single[of PNone x _ hn]
      by (cases r0) auto
    with i0 False show ?thesis by (cases x) (auto simp: item_stored_def)
  qed
  then obtain d where d: "a = length h" "h1 = h @ [d]" "?P d" by blast
  let ?s1 = "s\<lparr>series_content := series_content s @ [a]\<rparr>"
  from Cons.prems(1) step r have rec: "Series_append_items h1 ?s1 xs = (Inr (), h', s')"
    by simp
  have "h1 = h0 @ (ds0 @ [d])" using d Cons.prems(3) by simp
  from Cons.IH[OF rec _ this] Cons.prems(2)
  obtain ds where ds: "h' = h1 @ ds" "length ds = length xs"
      "series_content s' = series_content ?s1 @ [length h1 ..< length h1 + length xs]"
      "\<forall>i<length xs. item_stored h0 (xs ! i) (ds ! i)"
    by auto
  have "h' = h @ (d # ds)" using ds d by simp
  moreover have "length (d # ds) = length (x # xs)" using ds by simp
  moreover have "series_content s' = series_content s @ [length h ..< length h + length (x # xs)]"
  proof -
    have "[length h ..< length h + length (x # xs)] = length h # [length h1 ..< length h1 + length xs]"
      using d(2) by (simp add: upt_conv_Cons del: upt_Suc)
    with ds(3) d(1) show ?thesis by simp
  qed
  moreover have "\<forall>i<length (x # xs). item_stored h0 ((x # xs) ! i) ((d # ds) ! i)"
  proof (intro allI impI)
    fix i assume "i < length (x # xs)"
    then show "item_stored h0 ((x # xs) ! i) ((d # ds) ! i)"
      using d(3) ds(4) by (cases i) simp_all
  qed
  ultimately show ?case by blast
qed

subsection \<open>The constructor by kind of content, the series setter by kind of value\<close>

lemma name_setter_ok: "n = PNone \<or> name_ok n \<Longrightarrow> Data_name_setter d n = (Inr (), d\<lparr>data_name := n\<rparr>)"
  by (auto simp: Data_name_setter_def)

lemma Data_init_num: "type_of v \<in> set NUM_TYPES \<Longrightarrow> n = PNone \<or> name_ok n \<Longrightarrow>
  Data_init h n v = (Inr (length h), h @ [\<lparr>data_name = n, data_content = PTuple [v, PInt 0, PInt 0]\<rparr>])"
  by (simp add: Data_init_eq setter_num name_setter_ok)

lemma Data_init_tuple: "n = PNone \<or> name_ok n \<Longrightarrow> Data_init h n (PTuple ys) =
   (if length ys \<noteq> 2 \<and> length ys \<noteq> 3 then
      (Inl InvalidContentArity, h @ [\<lparr>data_name = PNone, data_content = PNone\<rparr>])
    else if \<exists>y\<in>set ys. type_of y \<notin> set NUM_TYPES then
      (Inl InvalidContentElementType, h @ [\<lparr>data_name = PNone, data_content = PNone\<rparr>])
    else if length ys = 2 then
      (Inr (length h), h @ [\<lparr>data_name = n, data_content = PTuple [ys ! 0, ys ! 1, PInt 0]\<rparr>])
    else (Inr (length h), h @ [\<lparr>data_name = n, data_content = PTuple ys\<rparr>]))"
  by (simp add: Data_init_eq setter_tuple name_setter_ok)

lemma Data_init_other: "v \<noteq> PNone \<Longrightarrow> type_of v \<notin> set NUM_TYPES \<Longrightarrow> type_of v \<noteq> TTuple \<Longrightarrow>
  Data_init h n v = (Inl InvalidContentType, h @ [\<lparr>data_name = PNone, data_content = PInt 0\<rparr>])"
  by (simp add: Data_init_eq setter_other)

lemma Data_init_None_content: "n = PNone \<or> name_ok n \<Longrightarrow>
  Data_init h n PNone = (Inr (length h), h @ [\<lparr>data_name = n, data_content = PNone\<rparr>])"
  by (simp add: Data_init_eq setter_None name_setter_ok)

lemma Series_set_content_list: "Series_set_content h s (PList xs) =
  (if xs = [] then (Inr (), h, s\<lparr>series_content := []\<rparr>)
   else if (\<exists>x\<in>set xs. type_of x \<in> set NUM_TYPES) \<and> (\<exists>x\<in>set xs. type_of x = TTuple) then
     (Inl InvalidSeriesMixedShape, h, s)
   else Series_append_items h (s\<lparr>series_content := []\<rparr>) xs)"
  by (simp add: Series_set_content_def max_list_map Series_is_num_def Series_is_tuple_def)

lemma Series_set_content_not_list: "c \<noteq> PNone \<Longrightarrow> type_of c \<noteq> TList \<Longrightarrow>
  Series_set_content h s c = (Inl InvalidSeriesType, h, s\<lparr>series_content := []\<rparr>)"
  by (cases c) (simp_all add: Series_set_content_def)

lemma append_items_succeeds:
  assumes "\<forall>x\<in>set xs. x = PNone \<or> type_of x \<in> set NUM_TYPES
      \<or> (\<exists>ys. x = PTuple ys \<and> (length ys = 2 \<or> length ys = 3) \<and> (\<forall>y\<in>set ys. type_of y \<in> set NUM_TYPES))
      \<or> (\<exists>b ys. x = PData b \<and> b < length h0 \<and> data_ok (h0 ! b) \<and> data_content (h0 ! b) = PTuple ys)"
  shows "fst (Series_append_items (h0 @ ds0) s xs) = Inr ()"
  using assms
proof (induction xs arbitrary: ds0 s)
  case Nil
  then show ?case by simp
next
  case (Cons x xs)
  let ?h = "h0 @ ds0"
  have "\<exists>d. (case x of PData a \<Rightarrow> Data_copy ?h a | _ \<Rightarrow> Data_init ?h PNone x) = (Inr (length ?h), ?h @ [d])"
  proof -
    from Cons.prems consider "x = PNone" | "type_of x \<in> set NUM_TYPES"
      | ys where "x = PTuple ys" "length ys = 2 \<or> length ys = 3" "\<forall>y\<in>set ys. type_of y \<in> set NUM_TYPES"
      | b ys where "x = PData b" "b < length h0" "data_ok (h0 ! b)" "data_content (h0 ! b) = PTuple ys"
      by auto
    then show ?thesis
    proof cases
      case 1
      then show ?thesis by (simp add: Data_init_None_content)
    next
      case 2
      then show ?thesis by (cases x) (simp_all add: Data_init_num)
    next
      case 3
      then show ?thesis by (auto simp: Data_init_tuple)
    next
      case 4
      then have "Data_copy ?h b = (Inr (length ?h), ?h @ [?h ! b])"
        by (intro Data_copy_tuple[where xs = ys]) (simp_all add: nth_append)
      with 4 show ?thesis by simp
    qed
  qed
  then obtain d where step: "(case x of PData a \<Rightarrow> Data_copy ?h a | _ \<Rightarrow> Data_init ?h PNone x) = (Inr (length ?h), ?h @ [d])"
    by blast
  have "fst (Series_append_items (h0 @ (ds0 @ [d])) (s\<lparr>series_content := series_content s @ [length ?h]\<rparr>) xs) = Inr ()"
    using Cons.prems by (intro Cons.IH) simp
  with step show ?case by simp
qed

lemma content_setter_data_ok: "data_ok d \<Longrightarrow> data_ok (snd (Data_content_setter d v))"
  by (simp add: data_ok_def setter_name_unchanged content_setter_ok)

lemma name_setter_data_ok: "data_ok d \<Longrightarrow> data_ok (snd (Data_name_setter d v))"
  by (auto simp: data_ok_def Data_name_setter_def)

lemma Data_init_data_ok: "list_all data_ok h \<Longrightarrow> list_all data_ok (snd (Data_init h n c))"
proof -
  have "data_ok \<lparr>data_name = PNone, data_content = PNone\<rparr>"
    by (simp add: data_ok_def content_ok_def)
  then have "data_ok (snd (Data_content_setter \<lparr>data_name = PNone, data_content = PNone\<rparr> c))"
    by (rule content_setter_data_ok)
  moreover from this
  have "data_ok (snd (Data_name_setter (snd (Data_content_setter \<lparr>data_name = PNone, data_content = PNone\<rparr> c)) n))"
    by (rule name_setter_data_ok)
  ultimately show "list_all data_ok h \<Longrightarrow> ?thesis"
    by (auto simp: Data_init_eq case_prod_beta split: sum.splits)
qed

lemma Series_set_content_None: "Series_set_content h s PNone = (Inr (), h, s\<lparr>series_content := []\<rparr>)"
  by (simp add: Series_set_content_def)

lemma series_cases:
  obtains "content = PNone" | xs where "content = PList xs"
  | "content \<noteq> PNone" "type_of content \<noteq> TList"
  by (cases content) auto

lemma Data_copy_shape: "Data_copy h a = (Inr d, h') \<Longrightarrow> d = length h \<and> length h' = Suc (length h)"
  by (auto simp: Data_copy_def Data_init_None set_content_nth set_name_nth case_prod_beta
      split: sum.splits if_splits)

lemma Data_init_shape: "Data_init h n c = (Inr d, h') \<Longrightarrow> d = length h \<and> length h' = Suc (length h)"
  by (auto simp: Data_init_eq case_prod_beta split: sum.splits)

lemma append_items_content:
  "Series_append_items h s xs = (Inr (), h', s') \<Longrightarrow>
     series_content s' = series_content s @ [length h ..< length h + length xs] \<and>
     length h' = length h + length xs"
proof (induction xs arbitrary: h s)
  case Nil
  then show ?case by simp
next
  case (Cons x xs)
  let ?step = "case x of PData a \<Rightarrow> Data_copy h a | _ \<Rightarrow> Data_init h PNone x"
  obtain r h1 where step: "?step = (r, h1)" by (cases ?step)
  with Cons.prems obtain d where r: "r = Inr d" by (cases r) auto
  from step r have d: "d = length h \<and> length h1 = Suc (length h)"
    by (cases x) (auto dest: Data_copy_shape Data_init_shape)
  from Cons.prems step r
  have "Series_append_items h1 (s\<lparr>series_content := series_content s @ [d]\<rparr>) xs = (Inr (), h', s')"
    by simp
  from Cons.IH[OF this] d show ?case
    by (simp add: upt_conv_Cons del: upt_Suc)
qed

lemma item_stored_num: "type_of x \<in> set NUM_TYPES \<Longrightarrow> item_stored h x d \<Longrightarrow>
  d = \<lparr>data_name = PNone, data_content = PTuple [x, PInt 0, PInt 0]\<rparr>"
  by (cases x) (auto simp: item_stored_def Data_init_num)

lemma item_stored_pair: "item_stored h (PTuple [p, q]) d \<Longrightarrow>
  d = \<lparr>data_name = PNone, data_content = PTuple [p, q, PInt 0]\<rparr>"
  by (auto simp: item_stored_def Data_init_tuple split: if_splits)

lemma item_stored_triple: "item_stored h (PTuple [p, q, r]) d \<Longrightarrow>
  d = \<lparr>data_name = PNone, data_content = PTuple [p, q, r]\<rparr>"
  by (auto simp: item_stored_def Data_init_tuple split: if_splits)

lemma item_stored_Data: "item_stored h (PData b) d \<Longrightarrow> d = h ! b"
  by (simp add: item_stored_def)

subsection \<open>The operations keep every object of the store in a reachable state\<close>

lemma list_all_update: "list_all P h \<Longrightarrow> P d \<Longrightarrow> list_all P (h[i := d])"
  using set_update_subset_insert[of h i d] by (auto simp: list_all_iff)

lemma Data_set_content_heap_ok:
  "list_all data_ok h \<Longrightarrow> list_all data_ok (snd (Data_set_content h self v))"
proof (cases "self < length h")
  case True
  assume ok: "list_all data_ok h"
  with True have "data_ok (h ! self)" by (simp add: list_all_length)
  then have "data_ok (snd (Data_content_setter (h ! self) v))" by (rule content_setter_data_ok)
  with ok show ?thesis
    by (simp add: set_content_nth list_all_update)
next
  case False
  assume "list_all data_ok h"
  with False show ?thesis by (simp add: set_content_nth list_update_beyond)
qed

lemma Data_set_name_heap_ok:
  "list_all data_ok h \<Longrightarrow> list_all data_ok (snd (Data_set_name h self v))"
proof (cases "self < length h")
  case True
  assume ok: "list_all data_ok h"
  with True have "data_ok (h ! self)" by (simp add: list_all_length)
  then have "data_ok (snd (Data_name_setter (h ! self) v))" by (rule name_setter_data_ok)
  with ok show ?thesis
    by (simp add: set_name_nth list_all_update)
next
  case False
  assume "list_all data_ok h"
  with False show ?thesis by (simp add: set_name_nth list_update_beyond)
qed

lemma Data_copy_heap_ok:
  assumes "list_all data_ok h" "self < length h"
  shows "list_all data_ok (snd (Data_copy h self))"
proof -
  from assms have ok: "data_ok (h ! self)" by (simp add: list_all_length)
  show ?thesis
  proof (cases "\<exists>xs. data_content (h ! self) = PTuple xs")
    case True
    then obtain xs where "data_content (h ! self) = PTuple xs" by blast
    with assms ok show ?thesis by (simp add: Data_copy_tuple)
  next
    case False
    with assms ok show ?thesis
      by (simp add: Data_copy_no_tuple data_ok_def content_ok_def)
  qed
qed

lemma append_items_heap_ok:
  assumes "list_all data_ok h" "\<forall>b. PData b \<in> set xs \<longrightarrow> b < length h"
  shows "list_all data_ok (fst (snd (Series_append_items h s xs)))"
  using assms
proof (induction xs arbitrary: h s)
  case Nil
  then show ?case by simp
next
  case (Cons x xs)
  let ?step = "case x of PData a \<Rightarrow> Data_copy h a | _ \<Rightarrow> Data_init h PNone x"
  obtain r h1 where step: "?step = (r, h1)" by (cases ?step)
  have h1: "list_all data_ok h1"
  proof (cases x)
    case (PData a)
    with Cons.prems have "list_all data_ok (snd (Data_copy h a))"
      by (intro Data_copy_heap_ok) simp_all
    with PData step show ?thesis by simp
  qed (use step Cons.prems(1) Data_init_data_ok[of h PNone x] in simp_all)
  show ?case
  proof (cases r)
    case (Inl e)
    with step h1 show ?thesis by simp
  next
    case (Inr d)
    from step have "length h \<le> length h1"
      by (cases x) (auto simp: Data_init_eq Data_copy_def Data_init_None set_content_nth set_name_nth
          case_prod_beta split: sum.splits if_splits)
    with Cons.prems(2) have "\<forall>b. PData b \<in> set xs \<longrightarrow> b < length h1" by fastforce
    from Cons.IH[OF h1 this] step Inr show ?thesis by simp
  qed
qed

lemma Series_set_content_heap_ok:
  assumes "list_all data_ok h" "\<forall>xs b. c = PList xs \<and> PData b \<in> set xs \<longrightarrow> b < length h"
  shows "list_all data_ok (fst (snd (Series_set_content h s c)))"
  using assms
  by (cases c rule: series_cases)
     (auto simp: Series_set_content_None Series_set_content_list Series_set_content_not_list
       intro: append_items_heap_ok)

section \<open>Claims\<close>

text \<open>
  C1. Setting the content of a \<^verbatim>\<open>Data\<close> object to \<^verbatim>\<open>None\<close>, to a number, to a
  pair of numbers or to a triple of numbers succeeds, and reading the content afterwards
  gives \<^verbatim>\<open>None\<close>, \<open>(v, 0, 0)\<close>, \<open>(a, b, 0)\<close> and \<open>(a, b, c)\<close> respectively.
  The constructor, called with a valid name, stores the same content for a number and for
  a pair.
\<close>

theorem Data_content_normalization:
  assumes "self < length h"
  shows "(fst (Data_set_content h self PNone) = Inr () \<and>
          Data_get_content (snd (Data_set_content h self PNone)) self = PNone) \<and>
         (type_of v \<in> set NUM_TYPES \<longrightarrow>
            fst (Data_set_content h self v) = Inr () \<and>
            Data_get_content (snd (Data_set_content h self v)) self = PTuple [v, PInt 0, PInt 0]) \<and>
         (type_of a \<in> set NUM_TYPES \<and> type_of b \<in> set NUM_TYPES \<longrightarrow>
            fst (Data_set_content h self (PTuple [a, b])) = Inr () \<and>
            Data_get_content (snd (Data_set_content h self (PTuple [a, b]))) self = PTuple [a, b, PInt 0]) \<and>
         (type_of a \<in> set NUM_TYPES \<and> type_of b \<in> set NUM_TYPES \<and> type_of c \<in> set NUM_TYPES \<longrightarrow>
            fst (Data_set_content h self (PTuple [a, b, c])) = Inr () \<and>
            Data_get_content (snd (Data_set_content h self (PTuple [a, b, c]))) self = PTuple [a, b, c]) \<and>
         (type_of v \<in> set NUM_TYPES \<and> (n = PNone \<or> name_ok n) \<longrightarrow>
            fst (Data_init h n v) = Inr (length h) \<and>
            Data_get_content (snd (Data_init h n v)) (length h) = PTuple [v, PInt 0, PInt 0]) \<and>
         (type_of a \<in> set NUM_TYPES \<and> type_of b \<in> set NUM_TYPES \<and> (n = PNone \<or> name_ok n) \<longrightarrow>
            fst (Data_init h n (PTuple [a, b])) = Inr (length h) \<and>
            Data_get_content (snd (Data_init h n (PTuple [a, b]))) (length h) = PTuple [a, b, PInt 0])"
proof -
  have 1: "fst (Data_set_content h self PNone) = Inr () \<and>
          Data_get_content (snd (Data_set_content h self PNone)) self = PNone"
    using assms by (simp add: set_content_nth setter_None Data_get_content_def)
  have 2: "type_of v \<in> set NUM_TYPES \<longrightarrow>
            fst (Data_set_content h self v) = Inr () \<and>
            Data_get_content (snd (Data_set_content h self v)) self = PTuple [v, PInt 0, PInt 0]"
    using assms by (simp add: set_content_nth setter_num Data_get_content_def)
  have 3: "type_of a \<in> set NUM_TYPES \<and> type_of b \<in> set NUM_TYPES \<longrightarrow>
            fst (Data_set_content h self (PTuple [a, b])) = Inr () \<and>
            Data_get_content (snd (Data_set_content h self (PTuple [a, b]))) self = PTuple [a, b, PInt 0]"
    using assms by (simp add: set_content_nth setter_tuple Data_get_content_def)
  have 4: "type_of a \<in> set NUM_TYPES \<and> type_of b \<in> set NUM_TYPES \<and> type_of c \<in> set NUM_TYPES \<longrightarrow>
            fst (Data_set_content h self (PTuple [a, b, c])) = Inr () \<and>
            Data_get_content (snd (Data_set_content h self (PTuple [a, b, c]))) self = PTuple [a, b, c]"
    using assms by (simp add: set_content_nth setter_tuple Data_get_content_def)
  have 5: "type_of v \<in> set NUM_TYPES \<and> (n = PNone \<or> name_ok n) \<longrightarrow>
            fst (Data_init h n v) = Inr (length h) \<and>
            Data_get_content (snd (Data_init h n v)) (length h) = PTuple [v, PInt 0, PInt 0]"
    by (auto simp: Data_init_num Data_get_content_def)
  have 6: "type_of a \<in> set NUM_TYPES \<and> type_of b \<in> set NUM_TYPES \<and> (n = PNone \<or> name_ok n) \<longrightarrow>
            fst (Data_init h n (PTuple [a, b])) = Inr (length h) \<and>
            Data_get_content (snd (Data_init h n (PTuple [a, b]))) (length h) = PTuple [a, b, PInt 0]"
    by (auto simp: Data_init_tuple Data_get_content_def)
  from 1 2 3 4 5 6 show ?thesis by blast
qed

theorem Data_content_normalization_witness:
  "(0::nat) < length [\<lparr>data_name = PStr ''p'', data_content = PNone\<rparr>] \<and>
   type_of (PInt 7) \<in> set NUM_TYPES \<and> type_of (PFloat 2) \<in> set NUM_TYPES \<and>
   type_of (PLong 3) \<in> set NUM_TYPES \<and> name_ok (PStr ''q'') \<and>
   Data_get_content (snd (Data_set_content [\<lparr>data_name = PStr ''p'', data_content = PNone\<rparr>] 0 (PInt 7))) 0
     = PTuple [PInt 7, PInt 0, PInt 0] \<and>
   Data_get_content (snd (Data_set_content [\<lparr>data_name = PStr ''p'', data_content = PNone\<rparr>] 0
      (PTuple [PFloat 2, PLong 3]))) 0 = PTuple [PFloat 2, PLong 3, PInt 0] \<and>
   Data_get_content (snd (Data_set_content [\<lparr>data_name = PStr ''p'', data_content = PNone\<rparr>] 0
      (PTuple [PFloat 2, PLong 3, PInt 7]))) 0 = PTuple [PFloat 2, PLong 3, PInt 7] \<and>
   Data_get_content (snd (Data_init [\<lparr>data_name = PStr ''p'', data_content = PNone\<rparr>] (PStr ''q'') (PInt 7))) 1
     = PTuple [PInt 7, PInt 0, PInt 0]"
proof -
  have l: "(0::nat) < length [\<lparr>data_name = PStr ''p'', data_content = PNone\<rparr>]" by simp
  have t: "type_of (PInt 7) \<in> set NUM_TYPES" "type_of (PFloat 2) \<in> set NUM_TYPES"
    "type_of (PLong 3) \<in> set NUM_TYPES" by (simp_all add: NUM_TYPES_def)
  have n: "name_ok (PStr ''q'')" by (simp add: name_ok_def STR_TYPES_def)
  show ?thesis
    using l t n Data_content_normalization [OF l, of "PInt 7" "PFloat 2" "PLong 3" "PInt 7" "PStr ''q''"]
    by simp
qed

text \<open>
  C5. Setting the content to a tuple raises the arity error exactly when the tuple has
  neither two nor three items, raises the element-type error exactly when it has two or
  three items and one of them is not a number, and succeeds exactly when it has two or
  three items that are all numbers.
\<close>

theorem Data_tuple_validation:
  "(fst (Data_set_content h self (PTuple xs)) = Inl InvalidContentArity \<longleftrightarrow>
      length xs \<noteq> 2 \<and> length xs \<noteq> 3) \<and>
   (fst (Data_set_content h self (PTuple xs)) = Inl InvalidContentElementType \<longleftrightarrow>
      (length xs = 2 \<or> length xs = 3) \<and> (\<exists>x\<in>set xs. type_of x \<notin> set NUM_TYPES)) \<and>
   (fst (Data_set_content h self (PTuple xs)) = Inr () \<longleftrightarrow>
      (length xs = 2 \<or> length xs = 3) \<and> (\<forall>x\<in>set xs. type_of x \<in> set NUM_TYPES))"
  by (auto simp: set_content_nth setter_tuple)

theorem Data_tuple_validation_witness:
  "fst (Data_set_content [\<lparr>data_name = PNone, data_content = PNone\<rparr>] 0 (PTuple [PInt 1, PStr ''x'']))
     = Inl InvalidContentElementType \<and>
   fst (Data_set_content [\<lparr>data_name = PNone, data_content = PNone\<rparr>] 0 (PTuple [PInt 1]))
     = Inl InvalidContentArity \<and>
   fst (Data_set_content [\<lparr>data_name = PNone, data_content = PNone\<rparr>] 0 (PTuple [PInt 1, PFloat 2]))
     = Inr ()"
  using Data_tuple_validation [of "[\<lparr>data_name = PNone, data_content = PNone\<rparr>]" 0 "[PInt 1, PStr ''x'']"]
        Data_tuple_validation [of "[\<lparr>data_name = PNone, data_content = PNone\<rparr>]" 0 "[PInt 1]"]
        Data_tuple_validation [of "[\<lparr>data_name = PNone, data_content = PNone\<rparr>]" 0 "[PInt 1, PFloat 2]"]
  by (simp add: NUM_TYPES_def)

text \<open>
  C7, as stated, fails: a tuple of one item is rejected with the arity error, and the
  content stays what it was, here \<open>(1, 0, 0)\<close> and not the number 0.
\<close>

theorem Data_content_placeholder_counterexample:
  "fst (Data_set_content [\<lparr>data_name = PNone, data_content = PTuple [PInt 1, PInt 0, PInt 0]\<rparr>] 0
         (PTuple [PInt 1])) = Inl InvalidContentArity \<and>
   Data_get_content (snd (Data_set_content
         [\<lparr>data_name = PNone, data_content = PTuple [PInt 1, PInt 0, PInt 0]\<rparr>] 0
         (PTuple [PInt 1]))) 0 \<noteq> PInt 0"
  by (simp add: set_content_nth setter_tuple Data_get_content_def)

text \<open>
  C7, amended. The setter raises the content-type error exactly on a value that is neither
  \<^verbatim>\<open>None\<close>, a number nor a tuple, and the stored content is then the number 0. When
  a tuple is rejected (arity or element type), the stored content is what it was before
  the assignment.
\<close>

theorem Data_content_placeholder:
  assumes "self < length h"
  shows "(fst (Data_set_content h self v) = Inl InvalidContentType \<longleftrightarrow>
            v \<noteq> PNone \<and> type_of v \<notin> set NUM_TYPES \<and> type_of v \<noteq> TTuple) \<and>
         (fst (Data_set_content h self v) = Inl InvalidContentType \<longrightarrow>
            Data_get_content (snd (Data_set_content h self v)) self = PInt 0) \<and>
         (fst (Data_set_content h self v) = Inl InvalidContentArity \<or>
          fst (Data_set_content h self v) = Inl InvalidContentElementType \<longrightarrow>
            Data_get_content (snd (Data_set_content h self v)) self = Data_get_content h self)"
  using assms
  by (cases v rule: setter_cases)
     (auto simp: set_content_nth setter_None setter_num setter_tuple setter_other Data_get_content_def)

theorem Data_content_placeholder_witness:
  "(0::nat) < length [\<lparr>data_name = PNone, data_content = PTuple [PInt 1, PInt 0, PInt 0]\<rparr>] \<and>
   fst (Data_set_content [\<lparr>data_name = PNone, data_content = PTuple [PInt 1, PInt 0, PInt 0]\<rparr>] 0
         (PStr ''x'')) = Inl InvalidContentType \<and>
   Data_get_content (snd (Data_set_content
         [\<lparr>data_name = PNone, data_content = PTuple [PInt 1, PInt 0, PInt 0]\<rparr>] 0 (PStr ''x''))) 0 = PInt 0"
proof -
  have l: "(0::nat) < length [\<lparr>data_name = PNone, data_content = PTuple [PInt 1, PInt 0, PInt 0]\<rparr>]"
    by simp
  show ?thesis
    using l Data_content_placeholder [OF l, of "PStr ''x''"] by (simp add: NUM_TYPES_def)
qed

text \<open>
  C4, as stated, fails: assigning a string to the content of a \<^verbatim>\<open>Data\<close> object
  raises the content-type error and changes the stored content from \<open>(1, 0, 0)\<close> to
  the number 0.
\<close>

theorem failed_mutation_atomic_counterexample:
  "fst (Data_set_content [\<lparr>data_name = PNone, data_content = PTuple [PInt 1, PInt 0, PInt 0]\<rparr>] 0
         (PStr ''x'')) = Inl InvalidContentType \<and>
   Data_get_content (snd (Data_set_content
         [\<lparr>data_name = PNone, data_content = PTuple [PInt 1, PInt 0, PInt 0]\<rparr>] 0 (PStr ''x''))) 0
     \<noteq> Data_get_content [\<lparr>data_name = PNone, data_content = PTuple [PInt 1, PInt 0, PInt 0]\<rparr>] 0"
  by (simp add: set_content_nth setter_other Data_get_content_def)

text \<open>
  C4, amended. A failed assignment never changes the other attribute: a failed name
  assignment leaves the content as it was, a failed content assignment leaves the name as
  it was, for \<^verbatim>\<open>Data\<close> and for \<^verbatim>\<open>Series\<close>. The attribute that is assigned is
  unchanged when a \<^verbatim>\<open>Data\<close> content is rejected as a tuple (arity, element type) and
  when a \<^verbatim>\<open>Series\<close> content is rejected for mixed shapes; it is reset to its empty
  value otherwise: the name to \<^verbatim>\<open>None\<close>, a \<^verbatim>\<open>Data\<close> content of unknown type to
  the number 0, a \<^verbatim>\<open>Series\<close> content that is not a list to the empty list.
\<close>

theorem failed_mutation:
  assumes "self < length h"
  shows "(fst (Data_set_name h self v) \<noteq> Inr () \<longrightarrow>
            Data_get_content (snd (Data_set_name h self v)) self = Data_get_content h self \<and>
            Data_get_name (snd (Data_set_name h self v)) self = PNone) \<and>
         (fst (Data_set_content h self v) \<noteq> Inr () \<longrightarrow>
            Data_get_name (snd (Data_set_content h self v)) self = Data_get_name h self) \<and>
         (fst (Data_set_content h self v) = Inl InvalidContentArity \<or>
          fst (Data_set_content h self v) = Inl InvalidContentElementType \<longrightarrow>
            snd (Data_set_content h self v) = h) \<and>
         (fst (Data_set_content h self v) = Inl InvalidContentType \<longrightarrow>
            Data_get_content (snd (Data_set_content h self v)) self = PInt 0) \<and>
         (fst (Series_set_name s v) \<noteq> Inr () \<longrightarrow>
            series_content (snd (Series_set_name s v)) = series_content s \<and>
            series_name (snd (Series_set_name s v)) = PNone) \<and>
         (fst (Series_set_content h s v) \<noteq> Inr () \<longrightarrow>
            series_name (snd (snd (Series_set_content h s v))) = series_name s) \<and>
         (fst (Series_set_content h s v) = Inl InvalidSeriesMixedShape \<longrightarrow>
            snd (Series_set_content h s v) = (h, s)) \<and>
         (fst (Series_set_content h s v) = Inl InvalidSeriesType \<longrightarrow>
            series_content (snd (snd (Series_set_content h s v))) = [])"
proof -
  have 1: "fst (Data_set_name h self v) \<noteq> Inr () \<longrightarrow>
            Data_get_content (snd (Data_set_name h self v)) self = Data_get_content h self \<and>
            Data_get_name (snd (Data_set_name h self v)) self = PNone"
    using assms by (simp add: set_name_nth Data_get_content_def Data_get_name_def Data_name_setter_def)
  have 2: "fst (Data_set_content h self v) \<noteq> Inr () \<longrightarrow>
            Data_get_name (snd (Data_set_content h self v)) self = Data_get_name h self"
    using assms by (simp add: set_content_nth Data_get_name_def setter_name_unchanged)
  have 3: "fst (Data_set_content h self v) = Inl InvalidContentArity \<or>
          fst (Data_set_content h self v) = Inl InvalidContentElementType \<longrightarrow>
            snd (Data_set_content h self v) = h"
    by (cases v rule: setter_cases)
       (auto simp: set_content_nth setter_None setter_num setter_tuple setter_other)
  have 4: "fst (Data_set_content h self v) = Inl InvalidContentType \<longrightarrow>
            Data_get_content (snd (Data_set_content h self v)) self = PInt 0"
    using assms by (cases v rule: setter_cases)
       (auto simp: set_content_nth setter_None setter_num setter_tuple setter_other Data_get_content_def)
  have 5: "fst (Series_set_name s v) \<noteq> Inr () \<longrightarrow>
            series_content (snd (Series_set_name s v)) = series_content s \<and>
            series_name (snd (Series_set_name s v)) = PNone"
    by (simp add: Series_set_name_def)
  have 6: "series_name (snd (snd (Series_set_content h s v))) = series_name s"
    by (cases v rule: series_cases)
       (simp_all add: Series_set_content_list Series_set_content_not_list append_items_name
        Series_set_content_None)
  have 7: "fst (Series_set_content h s v) = Inl InvalidSeriesMixedShape \<longrightarrow>
            snd (Series_set_content h s v) = (h, s)"
    by (cases v rule: series_cases)
       (auto simp: Series_set_content_list Series_set_content_not_list
        Series_set_content_None dest: append_items_errors)
  have 8: "fst (Series_set_content h s v) = Inl InvalidSeriesType \<longrightarrow>
            series_content (snd (snd (Series_set_content h s v))) = []"
    by (cases v rule: series_cases)
       (auto simp: Series_set_content_list Series_set_content_not_list
        Series_set_content_None dest: append_items_errors)
  from 1 2 3 4 5 6 7 8 show ?thesis by blast
qed

theorem failed_mutation_witness:
  "(0::nat) < length [\<lparr>data_name = PStr ''p'', data_content = PTuple [PInt 1, PInt 0, PInt 0]\<rparr>] \<and>
   fst (Data_set_content [\<lparr>data_name = PStr ''p'', data_content = PTuple [PInt 1, PInt 0, PInt 0]\<rparr>] 0
      (PTuple [PInt 1])) = Inl InvalidContentArity \<and>
   snd (Data_set_content [\<lparr>data_name = PStr ''p'', data_content = PTuple [PInt 1, PInt 0, PInt 0]\<rparr>] 0
      (PTuple [PInt 1])) = [\<lparr>data_name = PStr ''p'', data_content = PTuple [PInt 1, PInt 0, PInt 0]\<rparr>]"
proof -
  have l: "(0::nat) < length [\<lparr>data_name = PStr ''p'', data_content = PTuple [PInt 1, PInt 0, PInt 0]\<rparr>]"
    by simp
  have e: "fst (Data_set_content [\<lparr>data_name = PStr ''p'', data_content = PTuple [PInt 1, PInt 0, PInt 0]\<rparr>] 0
      (PTuple [PInt 1])) = Inl InvalidContentArity"
    by (simp add: set_content_nth setter_tuple)
  show ?thesis
    using l e failed_mutation [OF l, of "PTuple [PInt 1]"] by simp
qed

text \<open>
  C9, as stated, fails: a tuple is a sequence, and assigning the tuple \<open>(1, 2)\<close> to the
  content of a series raises the series-type error.
\<close>

theorem Series_type_error_counterexample:
  "fst (Series_set_content [] \<lparr>series_name = PNone, series_content = []\<rparr> (PTuple [PInt 1, PInt 2]))
     = Inl InvalidSeriesType"
  by (simp add: Series_set_content_def)

text \<open>
  C9, amended. Setting the content of a series raises the series-type error if and only if
  the value is not \<^verbatim>\<open>None\<close> and its type is not exactly \<^verbatim>\<open>list\<close>.
\<close>

theorem Series_type_error:
  "fst (Series_set_content h s c) = Inl InvalidSeriesType \<longleftrightarrow> c \<noteq> PNone \<and> type_of c \<noteq> TList"
  by (cases c rule: series_cases)
     (auto simp: Series_set_content_list Series_set_content_not_list Series_set_content_None
       dest: append_items_errors)

theorem Series_type_error_witness:
  "fst (Series_set_content [] \<lparr>series_name = PNone, series_content = []\<rparr> (PStr ''abc''))
     = Inl InvalidSeriesType \<and>
   fst (Series_set_content [] \<lparr>series_name = PNone, series_content = []\<rparr> (PList [PInt 1]))
     \<noteq> Inl InvalidSeriesType"
  using Series_type_error [of "[]" "\<lparr>series_name = PNone, series_content = []\<rparr>" "PStr ''abc''"]
        Series_type_error [of "[]" "\<lparr>series_name = PNone, series_content = []\<rparr>" "PList [PInt 1]"]
  by simp

text \<open>
  C2, as stated, fails on its last part. The list \<^verbatim>\<open>[5, Data('p')]\<close> holds a
  \<^verbatim>\<open>Data\<close> item and a number only, and the setter raises on it: the item has no
  content, and \<^verbatim>\<open>copy\<close> raises on such an object. The list
  \<^verbatim>\<open>[Data('p', (1, 2, 3)), (1,)]\<close> holds a \<^verbatim>\<open>Data\<close> item and a tuple only, and the
  setter raises the arity error on the tuple.
\<close>

theorem Series_mixed_shape_counterexample:
  "Data_init [] (PStr ''p'') PNone = (Inr 0, [\<lparr>data_name = PStr ''p'', data_content = PNone\<rparr>]) \<and>
   fst (Series_set_content [\<lparr>data_name = PStr ''p'', data_content = PNone\<rparr>]
          \<lparr>series_name = PNone, series_content = []\<rparr> (PList [PInt 5, PData 0]))
     = Inl NotSubscriptable \<and>
   Data_init [] (PStr ''p'') (PTuple [PInt 1, PInt 2, PInt 3]) =
     (Inr 0, [\<lparr>data_name = PStr ''p'', data_content = PTuple [PInt 1, PInt 2, PInt 3]\<rparr>]) \<and>
   fst (Series_set_content [\<lparr>data_name = PStr ''p'', data_content = PTuple [PInt 1, PInt 2, PInt 3]\<rparr>]
          \<lparr>series_name = PNone, series_content = []\<rparr> (PList [PData 0, PTuple [PInt 1]]))
     = Inl InvalidContentArity"
proof -
  let ?d = "\<lparr>data_name = PStr ''p'', data_content = PNone\<rparr>"
  let ?e = "\<lparr>data_name = PStr ''p'', data_content = PTuple [PInt 1, PInt 2, PInt 3]\<rparr>"
  let ?n = "\<lparr>data_name = PNone, data_content = PTuple [PInt 5, PInt 0, PInt 0]\<rparr>"
  let ?s = "\<lparr>series_name = PNone, series_content = []\<rparr>"
  have n: "name_ok (PStr ''p'')" by (simp add: name_ok_def STR_TYPES_def)
  have 1: "Data_init [] (PStr ''p'') PNone = (Inr 0, [?d])"
    using n by (simp add: Data_init_None_content)
  have c1: "Data_copy [?d, ?n] 0 = (Inl NotSubscriptable, [?d, ?n] @ [?d])"
    using n Data_copy_no_tuple[of 0 "[?d, ?n]"] by (simp add: data_ok_def content_ok_def)
  have 2: "fst (Series_set_content [?d] ?s (PList [PInt 5, PData 0])) = Inl NotSubscriptable"
    using c1 by (simp add: Series_set_content_list Data_init_num)
  have 3: "Data_init [] (PStr ''p'') (PTuple [PInt 1, PInt 2, PInt 3]) = (Inr 0, [?e])"
    using n by (simp add: Data_init_tuple)
  have c2: "Data_copy [?e] 0 = (Inr (length [?e]), [?e] @ [[?e] ! 0])"
    using n by (intro Data_copy_tuple[where xs = "[PInt 1, PInt 2, PInt 3]"])
      (simp_all add: data_ok_def content_ok_def)
  have 4: "fst (Series_set_content [?e] ?s (PList [PData 0, PTuple [PInt 1]])) = Inl InvalidContentArity"
    using c2 by (simp add: Series_set_content_list Data_init_tuple)
  from 1 2 3 4 show ?thesis by (intro conjI)
qed

text \<open>
  C2, amended. Setting the content of a series to a list raises the mixed-shape error if
  and only if the list holds at least one number and at least one tuple. \<^verbatim>\<open>Data\<close>
  items count for neither, so a list of \<^verbatim>\<open>Data\<close> items and numbers only, or of
  \<^verbatim>\<open>Data\<close> items and tuples only, never raises the mixed-shape error; such a list is
  accepted, stored without any error, when each of its \<^verbatim>\<open>Data\<close> items holds a point
  and each of its tuples is a valid point (two or three numbers).
\<close>

theorem Series_mixed_shape:
  "(fst (Series_set_content h s (PList xs)) = Inl InvalidSeriesMixedShape \<longleftrightarrow>
      (\<exists>x\<in>set xs. type_of x \<in> set NUM_TYPES) \<and> (\<exists>x\<in>set xs. type_of x = TTuple)) \<and>
   ((\<forall>x\<in>set xs. type_of x = TData \<or> type_of x \<in> set NUM_TYPES) \<longrightarrow>
      fst (Series_set_content h s (PList xs)) \<noteq> Inl InvalidSeriesMixedShape) \<and>
   ((\<forall>x\<in>set xs. type_of x = TData \<or> type_of x = TTuple) \<longrightarrow>
      fst (Series_set_content h s (PList xs)) \<noteq> Inl InvalidSeriesMixedShape) \<and>
   ((\<forall>x\<in>set xs. type_of x \<in> set NUM_TYPES \<or>
        (\<exists>b ys. x = PData b \<and> b < length h \<and> data_ok (h ! b) \<and> data_content (h ! b) = PTuple ys)) \<longrightarrow>
      fst (Series_set_content h s (PList xs)) = Inr ()) \<and>
   ((\<forall>x\<in>set xs.
        (\<exists>ys. x = PTuple ys \<and> (length ys = 2 \<or> length ys = 3) \<and>
              (\<forall>y\<in>set ys. type_of y \<in> set NUM_TYPES)) \<or>
        (\<exists>b ys. x = PData b \<and> b < length h \<and> data_ok (h ! b) \<and> data_content (h ! b) = PTuple ys)) \<longrightarrow>
      fst (Series_set_content h s (PList xs)) = Inr ())"
proof -
  have 1: "fst (Series_set_content h s (PList xs)) = Inl InvalidSeriesMixedShape \<longleftrightarrow>
      (\<exists>x\<in>set xs. type_of x \<in> set NUM_TYPES) \<and> (\<exists>x\<in>set xs. type_of x = TTuple)"
    by (auto simp: Series_set_content_list dest: append_items_errors)
  have 2: "(\<forall>x\<in>set xs. type_of x = TData \<or> type_of x \<in> set NUM_TYPES) \<longrightarrow>
      fst (Series_set_content h s (PList xs)) \<noteq> Inl InvalidSeriesMixedShape"
    unfolding 1 by auto
  have 3: "(\<forall>x\<in>set xs. type_of x = TData \<or> type_of x = TTuple) \<longrightarrow>
      fst (Series_set_content h s (PList xs)) \<noteq> Inl InvalidSeriesMixedShape"
    unfolding 1 by auto
  have 4: "fst (Series_set_content h s (PList xs)) = Inr ()"
    if a: "\<forall>x\<in>set xs. type_of x \<in> set NUM_TYPES \<or>
        (\<exists>b ys. x = PData b \<and> b < length h \<and> data_ok (h ! b) \<and> data_content (h ! b) = PTuple ys)"
  proof -
    from a have nt: "\<not> (\<exists>x\<in>set xs. type_of x = TTuple)" by fastforce
    from a have "fst (Series_append_items (h @ []) (s\<lparr>series_content := []\<rparr>) xs) = Inr ()"
      by (intro append_items_succeeds) blast
    with nt show ?thesis by (simp add: Series_set_content_list)
  qed
  have 5: "fst (Series_set_content h s (PList xs)) = Inr ()"
    if a: "\<forall>x\<in>set xs.
        (\<exists>ys. x = PTuple ys \<and> (length ys = 2 \<or> length ys = 3) \<and>
              (\<forall>y\<in>set ys. type_of y \<in> set NUM_TYPES)) \<or>
        (\<exists>b ys. x = PData b \<and> b < length h \<and> data_ok (h ! b) \<and> data_content (h ! b) = PTuple ys)"
  proof -
    from a have nt: "\<not> (\<exists>x\<in>set xs. type_of x \<in> set NUM_TYPES)" by fastforce
    from a have "fst (Series_append_items (h @ []) (s\<lparr>series_content := []\<rparr>) xs) = Inr ()"
      by (intro append_items_succeeds) blast
    with nt show ?thesis by (simp add: Series_set_content_list)
  qed
  from 1 2 3 4 5 show ?thesis by blast
qed

theorem Series_mixed_shape_witness:
  "fst (Series_set_content [\<lparr>data_name = PStr ''p'', data_content = PTuple [PInt 1, PInt 2, PInt 3]\<rparr>]
         \<lparr>series_name = PNone, series_content = []\<rparr> (PList [PData 0, PInt 4])) = Inr () \<and>
   fst (Series_set_content [\<lparr>data_name = PStr ''p'', data_content = PTuple [PInt 1, PInt 2, PInt 3]\<rparr>]
         \<lparr>series_name = PNone, series_content = []\<rparr> (PList [PTuple [PInt 5, PInt 6], PData 0])) = Inr () \<and>
   fst (Series_set_content [\<lparr>data_name = PStr ''p'', data_content = PTuple [PInt 1, PInt 2, PInt 3]\<rparr>]
         \<lparr>series_name = PNone, series_content = []\<rparr> (PList [PInt 1, PData 0, PTuple [PInt 2, PInt 2]]))
     = Inl InvalidSeriesMixedShape"
proof -
  let ?h = "[\<lparr>data_name = PStr ''p'', data_content = PTuple [PInt 1, PInt 2, PInt 3]\<rparr>]"
  let ?s = "\<lparr>series_name = PNone, series_content = []\<rparr>"
  have ok: "data_ok (?h ! 0)"
    by (simp add: data_ok_def content_ok_def name_ok_def STR_TYPES_def)
  have a: "\<forall>x\<in>set [PData 0, PInt 4]. type_of x \<in> set NUM_TYPES \<or>
        (\<exists>b ys. x = PData b \<and> b < length ?h \<and> data_ok (?h ! b) \<and> data_content (?h ! b) = PTuple ys)"
    using ok by simp
  have b: "\<forall>x\<in>set [PTuple [PInt 5, PInt 6], PData 0].
        (\<exists>ys. x = PTuple ys \<and> (length ys = 2 \<or> length ys = 3) \<and>
              (\<forall>y\<in>set ys. type_of y \<in> set NUM_TYPES)) \<or>
        (\<exists>b ys. x = PData b \<and> b < length ?h \<and> data_ok (?h ! b) \<and> data_content (?h ! b) = PTuple ys)"
    using ok by simp
  have c: "(\<exists>x\<in>set [PInt 1, PData 0, PTuple [PInt 2, PInt 2]]. type_of x \<in> set NUM_TYPES) \<and>
     (\<exists>x\<in>set [PInt 1, PData 0, PTuple [PInt 2, PInt 2]]. type_of x = TTuple)"
    by simp
  have r1: "fst (Series_set_content ?h ?s (PList [PData 0, PInt 4])) = Inr ()"
    using Series_mixed_shape [of ?h ?s "[PData 0, PInt 4]",
        THEN conjunct2, THEN conjunct2, THEN conjunct2, THEN conjunct1] a
    by (rule mp)
  have r2: "fst (Series_set_content ?h ?s (PList [PTuple [PInt 5, PInt 6], PData 0])) = Inr ()"
    using Series_mixed_shape [of ?h ?s "[PTuple [PInt 5, PInt 6], PData 0]",
        THEN conjunct2, THEN conjunct2, THEN conjunct2, THEN conjunct2] b
    by (rule mp)
  have r3: "fst (Series_set_content ?h ?s (PList [PInt 1, PData 0, PTuple [PInt 2, PInt 2]]))
      = Inl InvalidSeriesMixedShape"
    using Series_mixed_shape [of ?h ?s "[PInt 1, PData 0, PTuple [PInt 2, PInt 2]]", THEN conjunct1] c
    by (rule iffD2)
  from r1 r2 r3 show ?thesis by (intro conjI)
qed

text \<open>
  C10, as stated, fails twice. \<^verbatim>\<open>None\<close> is neither a number, a tuple nor a \<^verbatim>\<open>Data\<close>
  instance, and the list \<^verbatim>\<open>[None]\<close> is stored without any error. In the list
  \<^verbatim>\<open>[(1,), 'x']\<close> the string is such an element, but the setter raises the arity
  error, on the tuple before it.
\<close>

theorem Series_partial_prefix_counterexample:
  "fst (Series_set_content [] \<lparr>series_name = PNone, series_content = []\<rparr> (PList [PNone])) = Inr () \<and>
   fst (Series_set_content [] \<lparr>series_name = PNone, series_content = []\<rparr>
          (PList [PTuple [PInt 1], PStr ''x''])) = Inl InvalidContentArity"
  by (simp add: Series_set_content_list Data_init_None_content Data_init_tuple)

text \<open>
  C10, amended. Take a list that passes the mixed-shape check and whose item \<open>bad\<close> is
  neither \<^verbatim>\<open>None\<close>, a number, a tuple nor a \<^verbatim>\<open>Data\<close> instance, the items \<open>pre\<close>
  before it being accepted: setting the content to \<open>pre\<close> alone succeeds. Then setting
  the content to the list raises the content-type error, and the content that the series
  holds afterwards is the one that \<open>pre\<close> produces, one new object for each item of
  \<open>pre\<close>, and not the previous content. The name of the series is unchanged.
\<close>

theorem Series_partial_prefix:
  assumes "Series_set_content h s (PList pre) = (Inr (), h1, s1)"
      and "\<not> ((\<exists>x\<in>set (pre @ bad # post). type_of x \<in> set NUM_TYPES) \<and>
              (\<exists>x\<in>set (pre @ bad # post). type_of x = TTuple))"
      and "bad \<noteq> PNone" and "type_of bad \<notin> set NUM_TYPES"
      and "type_of bad \<noteq> TTuple" and "type_of bad \<noteq> TData"
  shows "Series_set_content h s (PList (pre @ bad # post)) =
           (Inl InvalidContentType, h1 @ [\<lparr>data_name = PNone, data_content = PInt 0\<rparr>], s1) \<and>
         series_content s1 = [length h ..< length h + length pre] \<and>
         series_name s1 = series_name s"
proof -
  let ?s0 = "s\<lparr>series_content := []\<rparr>"
  have pre: "Series_append_items h ?s0 pre = (Inr (), h1, s1)"
  proof (cases "pre = []")
    case True
    with assms(1) show ?thesis by (simp add: Series_set_content_list)
  next
    case False
    moreover from assms(2)
    have "\<not> ((\<exists>x\<in>set pre. type_of x \<in> set NUM_TYPES) \<and> (\<exists>x\<in>set pre. type_of x = TTuple))"
      by auto
    ultimately show ?thesis using assms(1)
      by (auto simp: Series_set_content_list split: if_splits)
  qed
  have bad: "Series_append_items h1 s1 (bad # post) =
      (Inl InvalidContentType, h1 @ [\<lparr>data_name = PNone, data_content = PInt 0\<rparr>], s1)"
    using assms(3-6) by (cases bad) (simp_all add: Data_init_other)
  have "Series_set_content h s (PList (pre @ bad # post)) =
      Series_append_items h ?s0 (pre @ bad # post)"
  proof -
    have "pre @ bad # post \<noteq> []" by simp
    with assms(2) show ?thesis
      unfolding Series_set_content_list by (simp only: if_False)
  qed
  also have "\<dots> = (Inl InvalidContentType, h1 @ [\<lparr>data_name = PNone, data_content = PInt 0\<rparr>], s1)"
    by (simp add: append_items_append pre bad del: Series_append_items.simps)
  finally have 1: "Series_set_content h s (PList (pre @ bad # post)) =
      (Inl InvalidContentType, h1 @ [\<lparr>data_name = PNone, data_content = PInt 0\<rparr>], s1)" .
  have 2: "series_content s1 = [length h ..< length h + length pre]"
    using append_items_content[OF pre] by simp
  have 3: "series_name s1 = series_name s"
    using append_items_name[of h ?s0 pre] pre by simp
  from 1 2 3 show ?thesis by blast
qed

theorem Series_partial_prefix_witness:
  "Series_set_content [\<lparr>data_name = PNone, data_content = PNone\<rparr>]
       \<lparr>series_name = PStr ''s'', series_content = [0]\<rparr> (PList [PInt 1, PInt 2])
     = (Inr (), [\<lparr>data_name = PNone, data_content = PNone\<rparr>,
                 \<lparr>data_name = PNone, data_content = PTuple [PInt 1, PInt 0, PInt 0]\<rparr>,
                 \<lparr>data_name = PNone, data_content = PTuple [PInt 2, PInt 0, PInt 0]\<rparr>],
        \<lparr>series_name = PStr ''s'', series_content = [1, 2]\<rparr>) \<and>
   Series_set_content [\<lparr>data_name = PNone, data_content = PNone\<rparr>]
       \<lparr>series_name = PStr ''s'', series_content = [0]\<rparr> (PList [PInt 1, PInt 2, PStr ''x'', PInt 3])
     = (Inl InvalidContentType,
        [\<lparr>data_name = PNone, data_content = PNone\<rparr>,
         \<lparr>data_name = PNone, data_content = PTuple [PInt 1, PInt 0, PInt 0]\<rparr>,
         \<lparr>data_name = PNone, data_content = PTuple [PInt 2, PInt 0, PInt 0]\<rparr>,
         \<lparr>data_name = PNone, data_content = PInt 0\<rparr>],
        \<lparr>series_name = PStr ''s'', series_content = [1, 2]\<rparr>)"
proof -
  let ?h = "[\<lparr>data_name = PNone, data_content = PNone\<rparr>]"
  let ?s = "\<lparr>series_name = PStr ''s'', series_content = [0]\<rparr>"
  let ?h1 = "[\<lparr>data_name = PNone, data_content = PNone\<rparr>,
                 \<lparr>data_name = PNone, data_content = PTuple [PInt 1, PInt 0, PInt 0]\<rparr>,
                 \<lparr>data_name = PNone, data_content = PTuple [PInt 2, PInt 0, PInt 0]\<rparr>]"
  let ?s1 = "\<lparr>series_name = PStr ''s'', series_content = [1, 2]\<rparr>"
  have a: "Series_set_content ?h ?s (PList [PInt 1, PInt 2]) = (Inr (), ?h1, ?s1)"
    by (simp add: Series_set_content_list Data_init_num)
  have b: "\<not> ((\<exists>x\<in>set ([PInt 1, PInt 2] @ PStr ''x'' # [PInt 3]). type_of x \<in> set NUM_TYPES) \<and>
              (\<exists>x\<in>set ([PInt 1, PInt 2] @ PStr ''x'' # [PInt 3]). type_of x = TTuple))"
    by simp
  have c: "PStr ''x'' \<noteq> PNone" "type_of (PStr ''x'') \<notin> set NUM_TYPES"
    "type_of (PStr ''x'') \<noteq> TTuple" "type_of (PStr ''x'') \<noteq> TData"
    by simp_all
  show ?thesis
    using a Series_partial_prefix [OF a b c] by simp
qed

text \<open>
  C3. When setting the content of a series to a list succeeds, the series holds one object
  for each item of the list, in the order of the list; each is a new object of the store,
  different from the others, and the objects that were there before are unchanged. The
  object stored for a \<^verbatim>\<open>Data\<close> item holds the name and the content of that item,
  the one stored for a number \<open>v\<close> has the content \<open>(v, 0, 0)\<close>, the one stored for a
  pair \<open>(p, q)\<close> has \<open>(p, q, 0)\<close>, the one stored for a triple has that triple. The
  content \<^verbatim>\<open>None\<close> and the empty list both leave a series of length 0.
\<close>

theorem Series_content_stored:
  assumes "Series_set_content h s (PList xs) = (Inr (), h', s')"
      and "\<forall>b. PData b \<in> set xs \<longrightarrow> b < length h \<and> data_ok (h ! b)"
  shows "Series_len s' = length xs \<and>
         series_name s' = series_name s \<and>
         distinct (series_content s') \<and>
         (\<forall>b<length h. h' ! b = h ! b) \<and>
         (\<forall>i<length xs.
            length h \<le> series_content s' ! i \<and> series_content s' ! i < length h' \<and>
            (\<forall>b. xs ! i = PData b \<longrightarrow>
               Data_get_name h' (series_content s' ! i) = Data_get_name h' b \<and>
               Data_get_content h' (series_content s' ! i) = Data_get_content h' b) \<and>
            (type_of (xs ! i) \<in> set NUM_TYPES \<longrightarrow>
               Data_get_content h' (series_content s' ! i) = PTuple [xs ! i, PInt 0, PInt 0]) \<and>
            (\<forall>p q. xs ! i = PTuple [p, q] \<longrightarrow>
               Data_get_content h' (series_content s' ! i) = PTuple [p, q, PInt 0]) \<and>
            (\<forall>p q r. xs ! i = PTuple [p, q, r] \<longrightarrow>
               Data_get_content h' (series_content s' ! i) = PTuple [p, q, r])) \<and>
         Series_set_content h s PNone = (Inr (), h, s\<lparr>series_content := []\<rparr>) \<and>
         Series_set_content h s (PList []) = (Inr (), h, s\<lparr>series_content := []\<rparr>) \<and>
         Series_len (s\<lparr>series_content := []\<rparr>) = 0"
proof -
  let ?s0 = "s\<lparr>series_content := []\<rparr>"
  have run: "Series_append_items h ?s0 xs = (Inr (), h', s')"
    using assms(1) by (cases "xs = []") (auto simp: Series_set_content_list split: if_splits)
  from append_items_success[OF run assms(2), of "[]"]
  obtain ds where ds: "h' = h @ ds" "length ds = length xs"
      "series_content s' = [length h ..< length h + length xs]"
      "\<forall>i<length xs. item_stored h (xs ! i) (ds ! i)"
    by auto
  have nth: "series_content s' ! i = length h + i" "h' ! (series_content s' ! i) = ds ! i"
    if "i < length xs" for i
    using that ds(1,2,3) by (simp_all add: nth_append)
  have 1: "Series_len s' = length xs" using ds(3) by (simp add: Series_len_def)
  have 2: "series_name s' = series_name s"
    using append_items_name[of h ?s0 xs] run by simp
  have 3: "distinct (series_content s')" using ds(3) by simp
  have 4: "\<forall>b<length h. h' ! b = h ! b" using ds(1) by (simp add: nth_append)
  have 5: "length h \<le> series_content s' ! i \<and> series_content s' ! i < length h' \<and>
            (\<forall>b. xs ! i = PData b \<longrightarrow>
               Data_get_name h' (series_content s' ! i) = Data_get_name h' b \<and>
               Data_get_content h' (series_content s' ! i) = Data_get_content h' b) \<and>
            (type_of (xs ! i) \<in> set NUM_TYPES \<longrightarrow>
               Data_get_content h' (series_content s' ! i) = PTuple [xs ! i, PInt 0, PInt 0]) \<and>
            (\<forall>p q. xs ! i = PTuple [p, q] \<longrightarrow>
               Data_get_content h' (series_content s' ! i) = PTuple [p, q, PInt 0]) \<and>
            (\<forall>p q r. xs ! i = PTuple [p, q, r] \<longrightarrow>
               Data_get_content h' (series_content s' ! i) = PTuple [p, q, r])"
    if i: "i < length xs" for i
  proof -
    from i ds(4) have st: "item_stored h (xs ! i) (ds ! i)" by simp
    have a: "length h \<le> series_content s' ! i \<and> series_content s' ! i < length h'"
      using nth(1)[OF i] i ds(1,2) by simp
    have b: "Data_get_name h' (series_content s' ! i) = Data_get_name h' b \<and>
             Data_get_content h' (series_content s' ! i) = Data_get_content h' b"
      if x: "xs ! i = PData b" for b
    proof -
      from x i have "PData b \<in> set xs" by (metis nth_mem)
      with assms(2) have "b < length h" by simp
      with 4 have "h' ! b = h ! b" by simp
      moreover from st x have "ds ! i = h ! b" by (simp add: item_stored_Data)
      ultimately show ?thesis
        using nth(2)[OF i] by (simp add: Data_get_name_def Data_get_content_def)
    qed
    have c: "Data_get_content h' (series_content s' ! i) = PTuple [xs ! i, PInt 0, PInt 0]"
      if "type_of (xs ! i) \<in> set NUM_TYPES"
      using item_stored_num[OF that st] nth(2)[OF i] by (simp add: Data_get_content_def)
    have d: "Data_get_content h' (series_content s' ! i) = PTuple [p, q, PInt 0]"
      if "xs ! i = PTuple [p, q]" for p q
      using item_stored_pair[of h p q "ds ! i"] st that nth(2)[OF i]
      by (simp add: Data_get_content_def)
    have e: "Data_get_content h' (series_content s' ! i) = PTuple [p, q, r]"
      if "xs ! i = PTuple [p, q, r]" for p q r
      using item_stored_triple[of h p q r "ds ! i"] st that nth(2)[OF i]
      by (simp add: Data_get_content_def)
    from a b c d e show ?thesis by blast
  qed
  have 6: "Series_set_content h s PNone = (Inr (), h, ?s0)"
    by (rule Series_set_content_None)
  have 7: "Series_set_content h s (PList []) = (Inr (), h, ?s0)"
    by (simp add: Series_set_content_list)
  have 8: "Series_len ?s0 = 0" by (simp add: Series_len_def)
  from 1 2 3 4 5 6 7 8 show ?thesis by blast
qed

theorem Series_content_stored_witness:
  "Series_set_content [\<lparr>data_name = PStr ''p'', data_content = PTuple [PInt 1, PInt 2, PInt 3]\<rparr>]
       \<lparr>series_name = PNone, series_content = []\<rparr> (PList [PData 0, PTuple [PInt 4, PInt 5]])
     = (Inr (), [\<lparr>data_name = PStr ''p'', data_content = PTuple [PInt 1, PInt 2, PInt 3]\<rparr>,
                 \<lparr>data_name = PStr ''p'', data_content = PTuple [PInt 1, PInt 2, PInt 3]\<rparr>,
                 \<lparr>data_name = PNone, data_content = PTuple [PInt 4, PInt 5, PInt 0]\<rparr>],
        \<lparr>series_name = PNone, series_content = [1, 2]\<rparr>) \<and>
   (0::nat) < length [\<lparr>data_name = PStr ''p'', data_content = PTuple [PInt 1, PInt 2, PInt 3]\<rparr>] \<and>
   data_ok ([\<lparr>data_name = PStr ''p'', data_content = PTuple [PInt 1, PInt 2, PInt 3]\<rparr>] ! 0) \<and>
   Series_len \<lparr>series_name = PNone, series_content = [1, 2]\<rparr> = 2 \<and>
   Data_get_content
      [\<lparr>data_name = PStr ''p'', data_content = PTuple [PInt 1, PInt 2, PInt 3]\<rparr>,
       \<lparr>data_name = PStr ''p'', data_content = PTuple [PInt 1, PInt 2, PInt 3]\<rparr>,
       \<lparr>data_name = PNone, data_content = PTuple [PInt 4, PInt 5, PInt 0]\<rparr>] 1 =
   Data_get_content
      [\<lparr>data_name = PStr ''p'', data_content = PTuple [PInt 1, PInt 2, PInt 3]\<rparr>,
       \<lparr>data_name = PStr ''p'', data_content = PTuple [PInt 1, PInt 2, PInt 3]\<rparr>,
       \<lparr>data_name = PNone, data_content = PTuple [PInt 4, PInt 5, PInt 0]\<rparr>] 0 \<and>
   Data_get_name
      [\<lparr>data_name = PStr ''p'', data_content = PTuple [PInt 1, PInt 2, PInt 3]\<rparr>,
       \<lparr>data_name = PStr ''p'', data_content = PTuple [PInt 1, PInt 2, PInt 3]\<rparr>,
       \<lparr>data_name = PNone, data_content = PTuple [PInt 4, PInt 5, PInt 0]\<rparr>] 1 =
   Data_get_name
      [\<lparr>data_name = PStr ''p'', data_content = PTuple [PInt 1, PInt 2, PInt 3]\<rparr>,
       \<lparr>data_name = PStr ''p'', data_content = PTuple [PInt 1, PInt 2, PInt 3]\<rparr>,
       \<lparr>data_name = PNone, data_content = PTuple [PInt 4, PInt 5, PInt 0]\<rparr>] 0"
proof -
  let ?h = "[\<lparr>data_name = PStr ''p'', data_content = PTuple [PInt 1, PInt 2, PInt 3]\<rparr>]"
  let ?s = "\<lparr>series_name = PNone, series_content = []\<rparr>"
  let ?xs = "[PData 0, PTuple [PInt 4, PInt 5]]"
  let ?h' = "[\<lparr>data_name = PStr ''p'', data_content = PTuple [PInt 1, PInt 2, PInt 3]\<rparr>,
                 \<lparr>data_name = PStr ''p'', data_content = PTuple [PInt 1, PInt 2, PInt 3]\<rparr>,
                 \<lparr>data_name = PNone, data_content = PTuple [PInt 4, PInt 5, PInt 0]\<rparr>]"
  let ?s' = "\<lparr>series_name = PNone, series_content = [1, 2]\<rparr>"
  have ok: "data_ok (?h ! 0)"
    by (simp add: data_ok_def content_ok_def name_ok_def STR_TYPES_def)
  have cp: "Data_copy ?h 0 = (Inr (length ?h), ?h @ [?h ! 0])"
    using ok by (intro Data_copy_tuple[where xs = "[PInt 1, PInt 2, PInt 3]"]) simp_all
  have a: "Series_set_content ?h ?s (PList ?xs) = (Inr (), ?h', ?s')"
    using cp by (simp add: Series_set_content_list Data_init_tuple)
  have b: "\<forall>b. PData b \<in> set ?xs \<longrightarrow> b < length ?h \<and> data_ok (?h ! b)"
    using ok by simp
  note t = Series_content_stored [OF a b]
  from t have l: "Series_len ?s' = length ?xs" by (rule conjunct1)
  have e: "Data_get_name ?h' (series_content ?s' ! 0) = Data_get_name ?h' 0 \<and>
           Data_get_content ?h' (series_content ?s' ! 0) = Data_get_content ?h' 0"
    using t [THEN conjunct2, THEN conjunct2, THEN conjunct2, THEN conjunct2, THEN conjunct1,
        rule_format, of 0, THEN conjunct2, THEN conjunct2, THEN conjunct1, rule_format, of 0]
    by simp
  from a ok l e show ?thesis by simp
qed

text \<open>
  What \<^verbatim>\<open>copy\<close> does on an object that holds a point: the copy is a new object with
  the same name and the same content, and an assignment to the copy leaves the original
  as it was.
\<close>

lemma Data_copy_independent:
  assumes "self < length h" "data_ok (h ! self)" "data_content (h ! self) = PTuple xs"
  shows "fst (Data_copy h self) = Inr (length h) \<and>
         Data_get_name (snd (Data_copy h self)) (length h) =
           Data_get_name (snd (Data_copy h self)) self \<and>
         Data_get_content (snd (Data_copy h self)) (length h) =
           Data_get_content (snd (Data_copy h self)) self \<and>
         snd (Data_set_content (snd (Data_copy h self)) (length h) v) ! self = h ! self \<and>
         snd (Data_set_name (snd (Data_copy h self)) (length h) v) ! self = h ! self"
  using assms
  by (simp add: Data_copy_tuple Data_get_name_def Data_get_content_def nth_append
      set_content_nth set_name_nth)

text \<open>
  C6. The claim fails on a \<^verbatim>\<open>Data\<close> object without content, such as the one that
  \<^verbatim>\<open>Data(name='p')\<close> builds: \<^verbatim>\<open>copy\<close> evaluates \<^verbatim>\<open>self.content[:]\<close> on
  \<^verbatim>\<open>None\<close> and raises.
\<close>

theorem Data_copy_without_content:
  "Data_init [] (PStr ''p'') PNone = (Inr 0, [\<lparr>data_name = PStr ''p'', data_content = PNone\<rparr>]) \<and>
   data_ok \<lparr>data_name = PStr ''p'', data_content = PNone\<rparr> \<and>
   fst (Data_copy [\<lparr>data_name = PStr ''p'', data_content = PNone\<rparr>] 0) = Inl NotSubscriptable"
proof -
  have n: "name_ok (PStr ''p'')" by (simp add: name_ok_def STR_TYPES_def)
  have ok: "data_ok \<lparr>data_name = PStr ''p'', data_content = PNone\<rparr>"
    using n by (simp add: data_ok_def content_ok_def)
  have i: "Data_init [] (PStr ''p'') PNone = (Inr 0, [\<lparr>data_name = PStr ''p'', data_content = PNone\<rparr>])"
    using n by (simp add: Data_init_None_content)
  have c: "fst (Data_copy [\<lparr>data_name = PStr ''p'', data_content = PNone\<rparr>] 0) = Inl NotSubscriptable"
    using ok by (simp add: Data_copy_no_tuple)
  from i ok c show ?thesis by (intro conjI)
qed

text \<open>
  Whatever value the content was set from, a number, a pair or a triple, \<^verbatim>\<open>__len__\<close>
  returns 3 afterwards: the arity of the stored tuple.
\<close>

lemma Data_len_after_set:
  assumes "self < length h" "v \<noteq> PNone" "fst (Data_set_content h self v) = Inr ()"
  shows "Data_len (snd (Data_set_content h self v)) self = Inr 3"
  using assms
  by (cases v rule: setter_cases)
     (auto simp: set_content_nth setter_num setter_tuple setter_other Data_len_def
       Data_get_content_def split: if_splits)

text \<open>
  C8. The claim fails on a \<^verbatim>\<open>Data\<close> object built from a number: the content is
  stored as \<open>(5, 0, 0)\<close>, and \<^verbatim>\<open>__len__\<close> returns 3, not 1.
\<close>

theorem Data_len_of_number:
  "Data_init [] PNone (PInt 5) =
     (Inr 0, [\<lparr>data_name = PNone, data_content = PTuple [PInt 5, PInt 0, PInt 0]\<rparr>]) \<and>
   Data_len [\<lparr>data_name = PNone, data_content = PTuple [PInt 5, PInt 0, PInt 0]\<rparr>] 0 = Inr 3"
  by (simp add: Data_init_num Data_len_def Data_get_content_def)

end
